theory Spec2Isabelle
  imports Complex_Main "HOL-Library.Word" "HOL-Library.Multiset"
begin

section \<open>Python values that cross the tracker's UDP socket\<close>

text \<open>
  The tracker (Tracker/Tracker.py) receives datagrams, runs
  \<^verbatim>\<open>json.loads(data.decode('utf-8'))\<close> on each and works on the resulting Python
  value. A JSON number with a fraction or exponent is a Python float; it is kept with the
  real number it denotes (NaN and the infinities, which Python's reader also accepts, are
  outside this model). A JSON object is a dict with string keys, kept as the list of its
  items (distinct keys, insertion order).
\<close>

datatype json =
    JNull
  | JBool bool
  | JInt int
  | JFloat real
  | JStr string
  | JArr "json list"
  | JObj "(string \<times> json) list"

text \<open>Python truthiness, as tested by \<^verbatim>\<open>if not x\<close>.\<close>

fun truthy :: "json \<Rightarrow> bool" where
  "truthy JNull = False"
| "truthy (JBool b) = b"
| "truthy (JInt n) = (n \<noteq> 0)"
| "truthy (JFloat r) = (r \<noteq> 0)"
| "truthy (JStr s) = (s \<noteq> [])"
| "truthy (JArr xs) = (xs \<noteq> [])"
| "truthy (JObj kvs) = (kvs \<noteq> [])"

text \<open>\<^verbatim>\<open>d.get(k)\<close>: the value, or None (the same Python value as a JSON null) when absent.\<close>

definition py_get :: "(string \<times> json) list \<Rightarrow> string \<Rightarrow> json" where
  "py_get d k = (case map_of d k of None \<Rightarrow> JNull | Some v \<Rightarrow> v)"

text \<open>\<^verbatim>\<open>d.get(k, default)\<close>.\<close>

definition py_get_default :: "(string \<times> json) list \<Rightarrow> string \<Rightarrow> json \<Rightarrow> json" where
  "py_get_default d k dflt = (case map_of d k of None \<Rightarrow> dflt | Some v \<Rightarrow> v)"

text \<open>
  A value used as a dict key is hashed; lists and dicts are unhashable (TypeError). Equal
  keys are the same entry, and Python's equality identifies \<^verbatim>\<open>True\<close> with 1,
  \<^verbatim>\<open>False\<close> with 0 and a float of integral value with that integer.
\<close>

datatype key = KNone | KInt int | KFloat real | KStr string

fun hash_key :: "json \<Rightarrow> key option" where
  "hash_key JNull = Some KNone"
| "hash_key (JBool b) = Some (KInt (if b then 1 else 0))"
| "hash_key (JInt n) = Some (KInt n)"
| "hash_key (JFloat r) = Some (if of_int \<lfloor>r\<rfloor> = r then KInt \<lfloor>r\<rfloor> else KFloat r)"
| "hash_key (JStr s) = Some (KStr s)"
| "hash_key (JArr xs) = None"
| "hash_key (JObj kvs) = None"

datatype pyexc =
    TypeError | KeyError | AttributeError | ValueError | UnicodeDecodeError | JSONDecodeError

section \<open>The tracker's state\<close>

text \<open>
  One entry of \<^verbatim>\<open>self.peers\<close>: \<^verbatim>\<open>{'files': ..., 'last_seen': ..., 'addr': 'ip:port'}\<close>.
  The address is the f-string \<^verbatim>\<open>f"{peer_ip}:{peer_tcp_port}"\<close>; it is kept as the two
  values it interpolates (Python's \<^verbatim>\<open>str()\<close> of the port value is not modelled).
  \<^verbatim>\<open>time.time()\<close> is a real number of seconds.
\<close>

record peer_info =
  files :: json
  last_seen :: real
  addr :: "string \<times> json"

text \<open>
  The dict handed to \<^verbatim>\<open>_send_response\<close>. The \<^verbatim>\<open>message\<close> text of an ACK or error
  reply is fixed per call site and is not kept.
\<close>

datatype response =
    PeersList "key \<rightharpoonup> peer_info"
  | Ack
  | ErrorReply string

type_synonym sockaddr = "string \<times> nat"

text \<open>
  \<^verbatim>\<open>peers\<close> is \<^verbatim>\<open>self.peers\<close>; \<^verbatim>\<open>peers_lock\<close> tells whether the running handler
  thread holds \<^verbatim>\<open>self.peers_lock\<close>; \<^verbatim>\<open>sent\<close> lists the responses handed to
  \<^verbatim>\<open>sock.sendto\<close> so far, with their destinations.
\<close>

record tracker =
  peers :: "key \<rightharpoonup> peer_info"
  peers_lock :: bool
  sent :: "(sockaddr \<times> response) list"

text \<open>
  How a call ends: it returns, it raises, or it blocks for ever. \<^verbatim>\<open>threading.Lock\<close> is
  not reentrant and only its holder releases it, so a thread that acquires a lock it already
  holds never proceeds.
\<close>

datatype result = Returns tracker | Raises pyexc tracker | Blocks tracker

definition acquire :: "tracker \<Rightarrow> tracker option" where
  "acquire s = (if peers_lock s then None else Some (s\<lparr>peers_lock := True\<rparr>))"

definition release :: "tracker \<Rightarrow> tracker" where
  "release s = s\<lparr>peers_lock := False\<rparr>"

definition PEER_TIMEOUT_MINUTES :: real where
  "PEER_TIMEOUT_MINUTES = 2"

text \<open>The state that \<^verbatim>\<open>Tracker.__init__\<close> builds: no peer, the lock free, nothing sent.\<close>

definition init_tracker :: tracker where
  "init_tracker = \<lparr>peers = Map.empty, peers_lock = False, sent = []\<rparr>"

section \<open>Responses\<close>

definition send_response :: "tracker \<Rightarrow> sockaddr \<Rightarrow> response \<Rightarrow> tracker" where
  "send_response s response_addr payload = s\<lparr>sent := sent s @ [(response_addr, payload)]\<rparr>"

definition send_ack :: "tracker \<Rightarrow> sockaddr \<Rightarrow> tracker" where
  "send_ack s response_addr = send_response s response_addr Ack"

definition send_error_response :: "tracker \<Rightarrow> sockaddr \<Rightarrow> string \<Rightarrow> tracker" where
  "send_error_response s response_addr error_code =
     send_response s response_addr (ErrorReply error_code)"

text \<open>
  \<^verbatim>\<open>{pid: info for pid, info in self.peers.items() if pid != requester_id}\<close>, built
  under the lock, then sent.
\<close>

definition send_peers_list :: "tracker \<Rightarrow> sockaddr \<Rightarrow> json \<Rightarrow> result" where
  "send_peers_list s response_addr requester_id =
     (case acquire s of
        None \<Rightarrow> Blocks s
      | Some s1 \<Rightarrow>
          let peers_to_send =
                (case hash_key requester_id of
                   None \<Rightarrow> peers s1
                 | Some k \<Rightarrow> (peers s1)(k := None))
          in Returns (send_response (release s1) response_addr (PeersList peers_to_send)))"

section \<open>Request handlers\<close>

text \<open>
  Each handler takes the reading of the clock \<^verbatim>\<open>now\<close> that its \<^verbatim>\<open>time.time()\<close>
  call returns, the state, and the arguments of the Python method (the socket is the
  \<^verbatim>\<open>sent\<close> field of the state).
\<close>

definition handle_register ::
  "real \<Rightarrow> tracker \<Rightarrow> (string \<times> json) list \<Rightarrow> sockaddr \<Rightarrow> string \<Rightarrow> json \<Rightarrow> result" where
  "handle_register now s payload response_addr peer_ip peer_tcp_port =
     (case map_of payload ''peer_id'' of
        None \<Rightarrow> Raises KeyError s
      | Some peer_id \<Rightarrow>
          if \<not> truthy peer_tcp_port then Returns s
          else
            (case acquire s of
               None \<Rightarrow> Blocks s
             | Some s1 \<Rightarrow>
                 (case hash_key peer_id of
                    None \<Rightarrow> Raises TypeError (release s1)
                  | Some k \<Rightarrow>
                      send_peers_list
                        (release (s1\<lparr>peers := (peers s1)(k \<mapsto>
                           \<lparr>files = JObj [], last_seen = now,
                            addr = (peer_ip, peer_tcp_port)\<rparr>)\<rparr>))
                        response_addr peer_id)))"

definition handle_update ::
  "real \<Rightarrow> tracker \<Rightarrow> (string \<times> json) list \<Rightarrow> sockaddr \<Rightarrow> string \<Rightarrow> json \<Rightarrow> result" where
  "handle_update now s payload response_addr peer_ip peer_tcp_port =
     (case map_of payload ''peer_id'' of
        None \<Rightarrow> Raises KeyError s
      | Some peer_id \<Rightarrow>
          let fs = py_get_default payload ''files'' (JObj []) in
          (case acquire s of
             None \<Rightarrow> Blocks s
           | Some s1 \<Rightarrow>
               (case hash_key peer_id of
                  None \<Rightarrow> Raises TypeError (release s1)
                | Some k \<Rightarrow>
                    (case peers s1 k of
                       Some info \<Rightarrow>
                         send_peers_list
                           (release (s1\<lparr>peers := (peers s1)(k \<mapsto>
                              info\<lparr>files := fs, last_seen := now\<rparr>)\<rparr>))
                           response_addr peer_id
                     | None \<Rightarrow>
                         send_peers_list
                           (release (s1\<lparr>peers := (peers s1)(k \<mapsto>
                              \<lparr>files = fs, last_seen = now,
                               addr = (peer_ip, peer_tcp_port)\<rparr>)\<rparr>))
                           response_addr peer_id))))"

definition handle_unregister ::
  "real \<Rightarrow> tracker \<Rightarrow> (string \<times> json) list \<Rightarrow> sockaddr \<Rightarrow> string \<Rightarrow> json \<Rightarrow> result" where
  "handle_unregister now s payload response_addr peer_ip peer_tcp_port =
     (case map_of payload ''peer_id'' of
        None \<Rightarrow> Raises KeyError s
      | Some peer_id \<Rightarrow>
          (case acquire s of
             None \<Rightarrow> Blocks s
           | Some s1 \<Rightarrow>
               (case hash_key peer_id of
                  None \<Rightarrow> Raises TypeError (release s1)
                | Some k \<Rightarrow>
                    Returns (send_ack (release (s1\<lparr>peers := (peers s1)(k := None)\<rparr>))
                               response_addr))))"

text \<open>
  \<^verbatim>\<open>_handle_heartbeat\<close> calls \<^verbatim>\<open>self._handle_register\<close> from inside its
  \<^verbatim>\<open>with self.peers_lock:\<close> block, so the callee runs in a state where the lock is held.
  Leaving the block (by \<^verbatim>\<open>return\<close> or by an exception) releases the lock.
\<close>

definition handle_heartbeat ::
  "real \<Rightarrow> tracker \<Rightarrow> (string \<times> json) list \<Rightarrow> sockaddr \<Rightarrow> string \<Rightarrow> json \<Rightarrow> result" where
  "handle_heartbeat now s payload response_addr peer_ip peer_tcp_port =
     (case map_of payload ''peer_id'' of
        None \<Rightarrow> Raises KeyError s
      | Some peer_id \<Rightarrow>
          (case acquire s of
             None \<Rightarrow> Blocks s
           | Some s1 \<Rightarrow>
               (case hash_key peer_id of
                  None \<Rightarrow> Raises TypeError (release s1)
                | Some k \<Rightarrow>
                    (case peers s1 k of
                       Some info \<Rightarrow>
                         Returns (send_ack
                           (release (s1\<lparr>peers := (peers s1)(k \<mapsto> info\<lparr>last_seen := now\<rparr>)\<rparr>))
                           response_addr)
                     | None \<Rightarrow>
                         if truthy peer_tcp_port then
                           (case handle_register now s1 payload response_addr peer_ip
                                   peer_tcp_port of
                              Returns s2 \<Rightarrow> Returns (release s2)
                            | Raises e s2 \<Rightarrow> Raises e (release s2)
                            | Blocks s2 \<Rightarrow> Blocks s2)
                         else Returns (send_ack (release s1) response_addr)))))"

text \<open>
  The body of the \<^verbatim>\<open>try\<close> in \<^verbatim>\<open>_handle_request\<close> after the payload has been
  parsed. A payload that is not a dict has no \<^verbatim>\<open>get\<close> (AttributeError); a command that
  is a list or dict cannot be looked up in \<^verbatim>\<open>handlers\<close> (TypeError).
\<close>

definition dispatch :: "real \<Rightarrow> tracker \<Rightarrow> json \<Rightarrow> sockaddr \<Rightarrow> result" where
  "dispatch now s payload response_addr =
     (case payload of
        JObj d \<Rightarrow>
          let command = py_get d ''command''; peer_id = py_get d ''peer_id'' in
          if \<not> truthy command \<or> \<not> truthy peer_id then Returns s
          else
            let peer_ip = fst response_addr; peer_tcp_port = py_get d ''port'' in
            (case hash_key command of
               None \<Rightarrow> Raises TypeError s
             | Some c \<Rightarrow>
                 if c = KStr ''REGISTER'' then
                   handle_register now s d response_addr peer_ip peer_tcp_port
                 else if c = KStr ''UPDATE'' then
                   handle_update now s d response_addr peer_ip peer_tcp_port
                 else if c = KStr ''UNREGISTER'' then
                   handle_unregister now s d response_addr peer_ip peer_tcp_port
                 else if c = KStr ''HEARTBEAT'' then
                   handle_heartbeat now s d response_addr peer_ip peer_tcp_port
                 else Returns (send_error_response s response_addr ''UNKNOWN_COMMAND''))
      | _ \<Rightarrow> Raises AttributeError s)"

text \<open>
  The two \<^verbatim>\<open>except\<close> clauses of \<^verbatim>\<open>_handle_request\<close>:
  \<^verbatim>\<open>json.JSONDecodeError\<close> is logged; any other exception is logged and answered.
\<close>

definition on_exception :: "pyexc \<Rightarrow> tracker \<Rightarrow> sockaddr \<Rightarrow> result" where
  "on_exception e s response_addr =
     (if e = JSONDecodeError then Returns s
      else Returns (send_error_response s response_addr ''PROCESSING_ERROR''))"

text \<open>
  \<^verbatim>\<open>_handle_request\<close> from the outcome of its first statement,
  \<^verbatim>\<open>payload = json.loads(data.decode('utf-8'))\<close>: the exception raised or the value.
\<close>

definition handle_decoded :: "real \<Rightarrow> tracker \<Rightarrow> pyexc + json \<Rightarrow> sockaddr \<Rightarrow> result" where
  "handle_decoded now s parsed response_addr =
     (case parsed of
        Inl e \<Rightarrow> on_exception e s response_addr
      | Inr payload \<Rightarrow>
          (case dispatch now s payload response_addr of
             Raises e s' \<Rightarrow> on_exception e s' response_addr
           | r \<Rightarrow> r))"

section \<open>The reaper\<close>

text \<open>
  One pass of \<^verbatim>\<open>_remove_timeout_peers_loop\<close> after its \<^verbatim>\<open>time.sleep\<close>, with
  \<^verbatim>\<open>now\<close> the value of \<^verbatim>\<open>time.time()\<close> read under the lock. \<^verbatim>\<open>to_remove\<close> holds
  the ids whose record is older than the threshold; each of them is deleted.
\<close>

definition timeout_threshold :: real where
  "timeout_threshold = PEER_TIMEOUT_MINUTES * 60"

definition to_remove :: "real \<Rightarrow> (key \<rightharpoonup> peer_info) \<Rightarrow> key set" where
  "to_remove now tbl =
     {peer_id. case tbl peer_id of
                 None \<Rightarrow> False
               | Some info \<Rightarrow> now - last_seen info > timeout_threshold}"

definition remove_timeout_peers :: "real \<Rightarrow> tracker \<Rightarrow> result" where
  "remove_timeout_peers now s =
     (case acquire s of
        None \<Rightarrow> Blocks s
      | Some s1 \<Rightarrow>
          Returns (release (s1\<lparr>peers := peers s1 |` (- to_remove now (peers s1))\<rparr>)))"

section \<open>Datagrams as bytes\<close>

type_synonym byte = "8 word"

text \<open>
  \<^verbatim>\<open>bytes.decode('utf-8')\<close> (strict): the code points of a well-formed UTF-8 byte
  sequence, or UnicodeDecodeError (here \<open>None\<close>). \<open>utf8_from need acc lo hi bs\<close> reads
  \<open>bs\<close> when \<open>need\<close> continuation bytes of the current character are still expected, the
  next of them within \<open>lo..hi\<close>, and \<open>acc\<close> holds the bits read so far. Overlong forms,
  surrogates and code points above U+10FFFF are rejected through the ranges of the second
  byte.
\<close>

fun utf8_from :: "nat \<Rightarrow> nat \<Rightarrow> byte \<Rightarrow> byte \<Rightarrow> byte list \<Rightarrow> nat list option" where
  "utf8_from need acc lo hi [] = (if need = 0 then Some [] else None)"
| "utf8_from need acc lo hi (b # bs) =
     (if need = 0 then
        (if b < 0x80 then map_option ((#) (unat b)) (utf8_from 0 0 0x80 0xBF bs)
         else if 0xC2 \<le> b \<and> b \<le> 0xDF then utf8_from 1 (unat b - 0xC0) 0x80 0xBF bs
         else if b = 0xE0 then utf8_from 2 0 0xA0 0xBF bs
         else if b = 0xED then utf8_from 2 13 0x80 0x9F bs
         else if 0xE1 \<le> b \<and> b \<le> 0xEF then utf8_from 2 (unat b - 0xE0) 0x80 0xBF bs
         else if b = 0xF0 then utf8_from 3 0 0x90 0xBF bs
         else if b = 0xF4 then utf8_from 3 4 0x80 0x8F bs
         else if 0xF1 \<le> b \<and> b \<le> 0xF3 then utf8_from 3 (unat b - 0xF0) 0x80 0xBF bs
         else None)
      else if lo \<le> b \<and> b \<le> hi then
        (if need = 1 then
           map_option ((#) (acc * 64 + (unat b - 0x80))) (utf8_from 0 0 0x80 0xBF bs)
         else utf8_from (need - 1) (acc * 64 + (unat b - 0x80)) 0x80 0xBF bs)
      else None)"

definition utf8_decode :: "byte list \<Rightarrow> nat list option" where
  "utf8_decode data = utf8_from 0 0 0x80 0xBF data"

text \<open>
  \<^verbatim>\<open>json.loads(data.decode('utf-8'))\<close>. The JSON reader is the standard library's; it is
  the parameter \<open>loads\<close>, from the decoded text to the value read, \<open>None\<close> where it raises
  JSONDecodeError.
\<close>

definition loads_decode :: "(nat list \<Rightarrow> json option) \<Rightarrow> byte list \<Rightarrow> pyexc + json" where
  "loads_decode loads data =
     (case utf8_decode data of
        None \<Rightarrow> Inl UnicodeDecodeError
      | Some text \<Rightarrow>
          (case loads text of
             None \<Rightarrow> Inl JSONDecodeError
           | Some payload \<Rightarrow> Inr payload))"

definition handle_request ::
  "(nat list \<Rightarrow> json option) \<Rightarrow> real \<Rightarrow> tracker \<Rightarrow> byte list \<Rightarrow> sockaddr \<Rightarrow> result" where
  "handle_request loads now s data response_addr =
     handle_decoded now s (loads_decode loads data) response_addr"

subsection \<open>The peer's side of the same socket\<close>

text \<open>
  Peer/NetworkManager.py. \<^verbatim>\<open>_compress_if_needed\<close> and the message that
  \<^verbatim>\<open>_send_udp_request\<close> builds from the serialised request; \<^verbatim>\<open>zlib.compress\<close> is the
  parameter \<open>zlib_compress\<close>. The prefix is the eleven bytes of \<^verbatim>\<open>b'COMPRESSED:'\<close>.
\<close>

definition COMPRESSION_THRESHOLD :: nat where
  "COMPRESSION_THRESHOLD = 1024"

definition MAX_PAYLOAD_SIZE :: nat where
  "MAX_PAYLOAD_SIZE = 65535"

definition COMPRESSED_PREFIX :: "byte list" where
  "COMPRESSED_PREFIX = [0x43, 0x4F, 0x4D, 0x50, 0x52, 0x45, 0x53, 0x53, 0x45, 0x44, 0x3A]"

definition compress_if_needed :: "(byte list \<Rightarrow> byte list) \<Rightarrow> byte list \<Rightarrow> byte list \<times> bool" where
  "compress_if_needed zlib_compress data =
     (if length data > COMPRESSION_THRESHOLD then (zlib_compress data, True)
      else (data, False))"

text \<open>The datagram handed to \<^verbatim>\<open>sendto\<close>, or \<open>None\<close> when it is too large to send.\<close>

definition udp_message :: "(byte list \<Rightarrow> byte list) \<Rightarrow> byte list \<Rightarrow> byte list option" where
  "udp_message zlib_compress json_data =
     (let (compressed_data, is_compressed) = compress_if_needed zlib_compress json_data;
          message = (if is_compressed then COMPRESSED_PREFIX @ compressed_data else json_data)
      in if length message > MAX_PAYLOAD_SIZE then None else Some message)"

text \<open>
  \<^verbatim>\<open>_decompress_if_needed\<close>, which the peer applies to what it receives:
  \<^verbatim>\<open>data.startswith(b'COMPRESSED:')\<close>, then \<^verbatim>\<open>zlib.decompress(data[11:])\<close>.
  \<open>zlib_decompress\<close> is \<open>None\<close> where zlib raises.
\<close>

datatype recv_error = ZlibError | DecodeError pyexc

definition decompress_if_needed ::
  "(byte list \<Rightarrow> byte list option) \<Rightarrow> (nat list \<Rightarrow> json option) \<Rightarrow> byte list \<Rightarrow>
     recv_error + json" where
  "decompress_if_needed zlib_decompress loads data =
     (if take 11 data = COMPRESSED_PREFIX then
        (case zlib_decompress (drop 11 data) of
           None \<Rightarrow> Inl ZlibError
         | Some decompressed \<Rightarrow>
             (case loads_decode loads decompressed of
                Inl e \<Rightarrow> Inl (DecodeError e)
              | Inr v \<Rightarrow> Inr v))
      else
        (case loads_decode loads data of
           Inl e \<Rightarrow> Inl (DecodeError e)
         | Inr v \<Rightarrow> Inr v))"

section \<open>The content store of a peer\<close>

text \<open>
  Peer/FileManager.py. File names are the names of regular files directly in the shared
  folder, written in ASCII. The disk is three tables: the files of the shared folder by
  name, the chunk files \<^verbatim>\<open>chunks/<safe>.<index>.chunk\<close> by the pair of the sanitised
  name and the index (the printed path determines both), and the \<^verbatim>\<open>.meta\<close> files by
  sanitised name. The two dicts \<^verbatim>\<open>local_files_metadata\<close> and \<^verbatim>\<open>available_chunks\<close>
  are in memory.
\<close>

definition CHUNK_SIZE :: nat where
  "CHUNK_SIZE = 1024 * 1024"

record metadata =
  fileName :: string
  fileSize :: nat
  fileHash :: string
  totalChunks :: nat
  createdAt :: int

record file_manager =
  shared_folder :: "string \<rightharpoonup> byte list"
  chunks_dir :: "string \<times> nat \<rightharpoonup> byte list"
  metadata_dir :: "string \<rightharpoonup> metadata"
  local_files_metadata :: "string \<rightharpoonup> metadata"
  available_chunks :: "string \<rightharpoonup> nat set"

text \<open>\<^verbatim>\<open>str.isalnum\<close> and the whitespace that \<^verbatim>\<open>str.rstrip()\<close> removes, on ASCII.\<close>

definition isalnum :: "char \<Rightarrow> bool" where
  "isalnum c =
     (let n = of_char c :: nat
      in (48 \<le> n \<and> n \<le> 57) \<or> (65 \<le> n \<and> n \<le> 90) \<or> (97 \<le> n \<and> n \<le> 122))"

definition isspace :: "char \<Rightarrow> bool" where
  "isspace c = (let n = of_char c :: nat in (9 \<le> n \<and> n \<le> 13) \<or> (28 \<le> n \<and> n \<le> 32))"

definition rstrip :: "string \<Rightarrow> string" where
  "rstrip s = rev (dropWhile isspace (rev s))"

definition safe_filename :: "string \<Rightarrow> string" where
  "safe_filename filename =
     rstrip (filter (\<lambda>c. isalnum c \<or> c \<in> set ''._-'') filename)"

text \<open>
  \<^verbatim>\<open>Path.with_suffix\<close>: the suffix of a name starts at its last dot, unless that dot is
  the first or the last character; an empty name raises ValueError (\<open>None\<close>).
\<close>

definition path_suffix :: "string \<Rightarrow> string" where
  "path_suffix name =
     (let after = rev (takeWhile (\<lambda>c. c \<noteq> CHR ''.'') (rev name))
      in if CHR ''.'' \<in> set name \<and> after \<noteq> [] \<and> length after + 1 < length name
         then CHR ''.'' # after else [])"

definition with_suffix :: "string \<Rightarrow> string \<Rightarrow> string option" where
  "with_suffix name suffix =
     (if name = [] then None
      else Some (take (length name - length (path_suffix name)) name @ suffix))"

definition get_file_metadata :: "file_manager \<Rightarrow> string \<Rightarrow> metadata option" where
  "get_file_metadata fm file_name = local_files_metadata fm file_name"

definition has_complete_file :: "file_manager \<Rightarrow> string \<Rightarrow> bool" where
  "has_complete_file fm file_name =
     (case get_file_metadata fm file_name of
        None \<Rightarrow> False
      | Some meta \<Rightarrow>
          (case available_chunks fm file_name of
             None \<Rightarrow> False
           | Some chunks \<Rightarrow>
               if chunks = {} then False else card chunks = totalChunks meta))"

text \<open>
  \<^verbatim>\<open>_save_metadata\<close> fills a \<^verbatim>\<open>configparser.ConfigParser()\<close>, whose default
  interpolation checks every non-empty value on assignment (\<^verbatim>\<open>before_set\<close>): the value
  with each \<^verbatim>\<open>%%\<close> removed (\<^verbatim>\<open>value.replace('%%', '')\<close>) and then each match of
  \<^verbatim>\<open>%\(([^)]+)\)s\<close> removed must hold no \<^verbatim>\<open>%\<close>, or ValueError is raised.
  \<open>key_length\<close> is the length of the match of that pattern at the head of a string;
  \<open>remove_keys skip\<close> drops \<open>skip\<close> characters, then every match, left to right.
\<close>

fun remove_escaped :: "string \<Rightarrow> string" where
  "remove_escaped (a # b # rest) =
     (if a = CHR ''%'' \<and> b = CHR ''%'' then remove_escaped rest
      else a # remove_escaped (b # rest))"
| "remove_escaped s = s"

definition key_length :: "string \<Rightarrow> nat option" where
  "key_length s =
     (if take 2 s = ''%('' then
        (let body = takeWhile (\<lambda>c. c \<noteq> CHR '')'') (drop 2 s);
             after = dropWhile (\<lambda>c. c \<noteq> CHR '')'') (drop 2 s)
         in if body \<noteq> [] \<and> take 2 after = '')s'' then Some (length body + 4) else None)
      else None)"

fun remove_keys :: "nat \<Rightarrow> string \<Rightarrow> string" where
  "remove_keys skip [] = []"
| "remove_keys skip (c # rest) =
     (if 0 < skip then remove_keys (skip - 1) rest
      else
        (case key_length (c # rest) of
           Some n \<Rightarrow> remove_keys (n - 1) rest
         | None \<Rightarrow> c # remove_keys 0 rest))"

definition interpolation_ok :: "string \<Rightarrow> bool" where
  "interpolation_ok v = (CHR ''%'' \<notin> set (remove_keys 0 (remove_escaped v)))"

text \<open>
  \<^verbatim>\<open>_save_metadata\<close>: the exception it raises, if any, and the state it leaves. The
  values assigned are the file name, the hash and three printed integers; the
  \<^verbatim>\<open>.meta\<close> file is written only after all of them have been accepted.
\<close>

definition save_metadata :: "file_manager \<Rightarrow> string \<Rightarrow> pyexc option \<times> file_manager" where
  "save_metadata fm file_name =
     (case get_file_metadata fm file_name of
        None \<Rightarrow> (None, fm)
      | Some meta \<Rightarrow>
          if interpolation_ok (fileName meta) \<and> interpolation_ok (fileHash meta) then
            (None, fm\<lparr>metadata_dir := (metadata_dir fm)(safe_filename file_name \<mapsto> meta)\<rparr>)
          else (Some ValueError, fm))"

definition save_chunk :: "file_manager \<Rightarrow> string \<Rightarrow> nat \<Rightarrow> byte list \<Rightarrow> file_manager" where
  "save_chunk fm file_name chunk_index data =
     (let fm1 = fm\<lparr>chunks_dir :=
                   (chunks_dir fm)((safe_filename file_name, chunk_index) \<mapsto> data)\<rparr>;
          fm2 = (case available_chunks fm1 file_name of
                   None \<Rightarrow> fm1\<lparr>available_chunks := (available_chunks fm1)(file_name \<mapsto> {})\<rparr>
                 | Some _ \<Rightarrow> fm1)
      in (case available_chunks fm2 file_name of
            None \<Rightarrow> fm2
          | Some chunks \<Rightarrow>
              fm2\<lparr>available_chunks :=
                    (available_chunks fm2)(file_name \<mapsto> insert chunk_index chunks)\<rparr>))"

definition load_chunk :: "file_manager \<Rightarrow> string \<Rightarrow> nat \<Rightarrow> byte list option" where
  "load_chunk fm file_name chunk_index = chunks_dir fm (safe_filename file_name, chunk_index)"

text \<open>
  The loop of \<^verbatim>\<open>process_new_file\<close> over \<^verbatim>\<open>range(total_chunks)\<close>: each
  \<^verbatim>\<open>f.read(CHUNK_SIZE)\<close> takes the next bytes of what is left of the file.
\<close>

fun save_chunks :: "file_manager \<Rightarrow> string \<Rightarrow> nat list \<Rightarrow> byte list \<Rightarrow> file_manager" where
  "save_chunks fm file_name [] rest = fm"
| "save_chunks fm file_name (i # is) rest =
     save_chunks (save_chunk fm file_name i (take CHUNK_SIZE rest)) file_name is
       (drop CHUNK_SIZE rest)"

text \<open>
  \<^verbatim>\<open>process_new_file\<close> on the file \<open>file_name\<close> of the shared folder; \<open>sha256\<close> is
  \<^verbatim>\<open>hashlib.sha256(...).hexdigest()\<close> of a whole content, \<open>now_ms\<close> is
  \<^verbatim>\<open>int(time.time() * 1000)\<close>. A missing file raises in \<^verbatim>\<open>stat\<close>, and
  \<^verbatim>\<open>_save_metadata\<close> may raise after both dicts have been updated and before any chunk
  is saved; the \<^verbatim>\<open>except\<close> clause logs the exception and the method returns. The
  notification of the tracker at the end is not part of the store.
\<close>

definition process_new_file ::
  "(byte list \<Rightarrow> string) \<Rightarrow> int \<Rightarrow> file_manager \<Rightarrow> string \<Rightarrow> file_manager" where
  "process_new_file sha256 now_ms fm file_name =
     (case shared_folder fm file_name of
        None \<Rightarrow> fm
      | Some content \<Rightarrow>
          let file_size = length content in
          if file_size = 0 then fm
          else
            let file_hash = sha256 content;
                total_chunks = (file_size + CHUNK_SIZE - 1) div CHUNK_SIZE;
                meta = \<lparr>fileName = file_name, fileSize = file_size, fileHash = file_hash,
                        totalChunks = total_chunks, createdAt = now_ms\<rparr>;
                fm1 = fm\<lparr>local_files_metadata := (local_files_metadata fm)(file_name \<mapsto> meta),
                         available_chunks := (available_chunks fm)(file_name \<mapsto> {})\<rparr>
            in (case save_metadata fm1 file_name of
                  (Some e, fm2) \<Rightarrow> fm2
                | (None, fm2) \<Rightarrow> save_chunks fm2 file_name [0..<total_chunks] content))"

text \<open>
  The loop of \<^verbatim>\<open>reconstruct_file\<close> over \<^verbatim>\<open>range(meta['totalChunks'])\<close>: the bytes
  written to the \<^verbatim>\<open>.part\<close> file, or \<open>None\<close> at the first chunk that is missing.
\<close>

fun read_chunks :: "file_manager \<Rightarrow> string \<Rightarrow> nat list \<Rightarrow> byte list option" where
  "read_chunks fm file_name [] = Some []"
| "read_chunks fm file_name (i # is) =
     (case load_chunk fm file_name i of
        None \<Rightarrow> None
      | Some chunk_data \<Rightarrow> map_option ((@) chunk_data) (read_chunks fm file_name is))"

text \<open>
  \<^verbatim>\<open>reconstruct_file\<close>: the value returned and the state left. Renaming the
  \<^verbatim>\<open>.part\<close> file replaces the target (POSIX).
\<close>

definition reconstruct_file ::
  "(byte list \<Rightarrow> string) \<Rightarrow> file_manager \<Rightarrow> string \<Rightarrow> bool \<times> file_manager" where
  "reconstruct_file sha256 fm file_name =
     (if \<not> has_complete_file fm file_name then (False, fm)
      else
        (case get_file_metadata fm file_name of
           None \<Rightarrow> (False, fm)
         | Some meta \<Rightarrow>
             if (case shared_folder fm file_name of
                   None \<Rightarrow> False
                 | Some existing \<Rightarrow> length existing = fileSize meta)
             then (True, fm)
             else
               (case with_suffix file_name ''.part'' of
                  None \<Rightarrow> (False, fm)
                | Some temp_path \<Rightarrow>
                    (case read_chunks fm file_name [0..<totalChunks meta] of
                       None \<Rightarrow>
                         (False, fm\<lparr>shared_folder := (shared_folder fm)(temp_path := None)\<rparr>)
                     | Some written \<Rightarrow>
                         if sha256 written = fileHash meta then
                           (True, fm\<lparr>shared_folder :=
                                      ((shared_folder fm)(temp_path := None))
                                        (file_name \<mapsto> written)\<rparr>)
                         else
                           (False,
                            fm\<lparr>shared_folder := (shared_folder fm)(temp_path := None)\<rparr>)))))"

text \<open>
  The store that \<^verbatim>\<open>FileManager.__init__\<close> builds over an empty shared folder: nothing on
  disk, both dicts empty.
\<close>

definition init_file_manager :: file_manager where
  "init_file_manager =
     \<lparr>shared_folder = Map.empty, chunks_dir = Map.empty, metadata_dir = Map.empty,
      local_files_metadata = Map.empty, available_chunks = Map.empty\<rparr>"

text \<open>
  Invariant (a) of the specification: every key of \<^verbatim>\<open>available_chunks\<close> has a metadata
  record.
\<close>

definition chunks_have_metadata :: "file_manager \<Rightarrow> bool" where
  "chunks_have_metadata fm = (dom (available_chunks fm) \<subseteq> dom (local_files_metadata fm))"

section \<open>Rarest-first scheduling\<close>

text \<open>
  Peer/DownloadManager.py. An entry of the known-peers table, as far as the scheduler reads
  it: the \<^verbatim>\<open>files\<close> dict of the peer (absent: \<open>None\<close>), from file name to the list of
  chunk indices the peer advertises.
\<close>

record known_peer =
  peer_addr :: string
  peer_files :: "(string \<rightharpoonup> nat list) option"

definition CHUNK_DOWNLOADER_THREADS :: nat where
  "CHUNK_DOWNLOADER_THREADS = 5"

text \<open>
  The body of the loop over \<^verbatim>\<open>all_peers.values()\<close>: one peer's contribution to
  \<^verbatim>\<open>chunk_frequency\<close>.
\<close>

definition count_chunk :: "nat \<Rightarrow> (nat \<rightharpoonup> nat) \<Rightarrow> (nat \<rightharpoonup> nat)" where
  "count_chunk chunk_index chunk_frequency =
     (case chunk_frequency chunk_index of
        None \<Rightarrow> chunk_frequency
      | Some n \<Rightarrow> chunk_frequency(chunk_index \<mapsto> n + 1))"

definition count_peer :: "string \<Rightarrow> known_peer \<Rightarrow> (nat \<rightharpoonup> nat) \<Rightarrow> (nat \<rightharpoonup> nat)" where
  "count_peer file_name peer_info chunk_frequency =
     (let files_of_peer = (case peer_files peer_info of None \<Rightarrow> Map.empty | Some fs \<Rightarrow> fs)
      in case files_of_peer file_name of
           None \<Rightarrow> chunk_frequency
         | Some chunk_list \<Rightarrow> fold count_chunk chunk_list chunk_frequency)"

text \<open>
  \<^verbatim>\<open>_get_rarest_chunks_first\<close>. \<open>needed_chunks\<close> is a Python set; it is given as the
  list of its elements in the order in which the set iterates (CPython iterates a set of
  small integers by hash slot: \<^verbatim>\<open>list({1, 8})\<close> is \<^verbatim>\<open>[8, 1]\<close>). \<^verbatim>\<open>sorted\<close> is
  stable, as \<^const>\<open>sort_key\<close> is.
\<close>

definition get_rarest_chunks_first :: "nat list \<Rightarrow> string \<Rightarrow> known_peer list \<Rightarrow> nat list" where
  "get_rarest_chunks_first needed_chunks file_name all_peers =
     (let chunk_frequency0 = map_of (map (\<lambda>chunk_idx. (chunk_idx, 0)) needed_chunks);
          chunk_frequency = fold (count_peer file_name) all_peers chunk_frequency0
      in sort_key (\<lambda>idx. case chunk_frequency idx of None \<Rightarrow> 0 | Some n \<Rightarrow> n) needed_chunks)"

text \<open>
  The chunks submitted in one round of \<^verbatim>\<open>_fetch_all_needed_chunks\<close>:
  \<^verbatim>\<open>sorted_chunks_to_download[:self.CHUNK_DOWNLOADER_THREADS]\<close>.
\<close>

definition next_batch :: "nat list \<Rightarrow> string \<Rightarrow> known_peer list \<Rightarrow> nat list" where
  "next_batch needed_chunks file_name all_peers =
     take CHUNK_DOWNLOADER_THREADS (get_rarest_chunks_first needed_chunks file_name all_peers)"

subsection \<open>The order in the words of the specification\<close>

text \<open>
  The chunks of \<open>file_name\<close> that a known peer lists (none when it does not advertise the
  file); how often a chunk occurs in the lists of all known peers; how many known peers list
  it; and the order "rarer first, then smaller index".
\<close>

definition listed_chunks :: "string \<Rightarrow> known_peer \<Rightarrow> nat list" where
  "listed_chunks file_name p =
     (case peer_files p of
        None \<Rightarrow> []
      | Some fs \<Rightarrow> (case fs file_name of None \<Rightarrow> [] | Some chunk_list \<Rightarrow> chunk_list))"

definition occurrences :: "string \<Rightarrow> known_peer list \<Rightarrow> nat \<Rightarrow> nat" where
  "occurrences file_name all_peers i =
     sum_list (map (\<lambda>p. count_list (listed_chunks file_name p) i) all_peers)"

definition peers_listing :: "string \<Rightarrow> known_peer list \<Rightarrow> nat \<Rightarrow> nat" where
  "peers_listing file_name all_peers i =
     length (filter (\<lambda>p. i \<in> set (listed_chunks file_name p)) all_peers)"

definition rarer :: "(nat \<Rightarrow> nat) \<Rightarrow> nat \<Rightarrow> nat \<Rightarrow> bool" where
  "rarer score i j = (score i < score j \<or> (score i = score j \<and> i \<le> j))"

section \<open>Properties of the tracker\<close>

lemma truthy_py_get_map_of:
  "truthy (py_get d k) \<Longrightarrow> map_of d k = Some (py_get d k)"
  by (cases "map_of d k") (simp_all add: py_get_def)

subsection \<open>Compressed requests\<close>

text \<open>
  C1. The claim: a datagram that begins with \<^verbatim>\<open>COMPRESSED:\<close> is recognised, inflated and
  then processed like the plain request. The tracker does not look for the prefix: it
  decodes the whole datagram as UTF-8. What \<^verbatim>\<open>zlib.compress(data, level=6)\<close> returns
  begins with the bytes 0x78 0x9C, and 0x9C cannot start a UTF-8 character, so for every
  datagram of this shape, whatever was compressed, the request is not processed: the
  tracker answers PROCESSING_ERROR and nothing else happens.
\<close>

theorem compressed_request_not_processed:
  "handle_request loads now s (COMPRESSED_PREFIX @ 0x78 # 0x9C # deflated) response_addr =
     Returns (send_error_response s response_addr ''PROCESSING_ERROR'')"
proof -
  have "utf8_decode (COMPRESSED_PREFIX @ 0x78 # 0x9C # deflated) = None"
    by (simp add: utf8_decode_def COMPRESSED_PREFIX_def)
  then show ?thesis
    by (simp add: handle_request_def loads_decode_def handle_decoded_def on_exception_def)
qed

subsection \<open>HEARTBEAT from an unknown peer\<close>

lemma heartbeat_unknown_with_port:
  assumes "map_of payload ''peer_id'' = Some pid" and "hash_key pid = Some k"
    and "peers s k = None" and "truthy port" and "\<not> peers_lock s"
  shows "handle_heartbeat now s payload ra ip port = Blocks (s\<lparr>peers_lock := True\<rparr>)"
  using assms by (simp add: handle_heartbeat_def handle_register_def acquire_def)

text \<open>
  C3. The claim: a HEARTBEAT from an unknown peer that carries a port terminates and acts as
  a REGISTER. In the code the handler calls \<^verbatim>\<open>_handle_register\<close> while it holds
  \<^verbatim>\<open>peers_lock\<close>, and the callee acquires the same lock: the call never returns, the
  table is unchanged, nothing is sent, and the lock stays held.
\<close>

theorem heartbeat_unknown_peer_blocks:
  assumes "py_get d ''command'' = JStr ''HEARTBEAT''"
    and "hash_key (py_get d ''peer_id'') = Some k"
    and "truthy (py_get d ''peer_id'')"
    and "peers s k = None"
    and "truthy (py_get d ''port'')"
    and "\<not> peers_lock s"
  shows "handle_decoded now s (Inr (JObj d)) response_addr = Blocks (s\<lparr>peers_lock := True\<rparr>)"
proof -
  have pid: "map_of d ''peer_id'' = Some (py_get d ''peer_id'')"
    using assms(3) by (rule truthy_py_get_map_of)
  have "dispatch now s (JObj d) response_addr =
          handle_heartbeat now s d response_addr (fst response_addr) (py_get d ''port'')"
    using assms(1,3) by (simp add: dispatch_def Let_def)
  also have "\<dots> = Blocks (s\<lparr>peers_lock := True\<rparr>)"
    using pid assms(2,4,5,6) by (rule heartbeat_unknown_with_port)
  finally show ?thesis
    by (simp add: handle_decoded_def)
qed

theorem heartbeat_unknown_peer_blocks_witness:
  "handle_decoded 100 init_tracker
     (Inr (JObj [(''command'', JStr ''HEARTBEAT''), (''peer_id'', JStr ''p1''),
                 (''port'', JInt 5000)]))
     (''10.0.0.1'', 40000) = Blocks (init_tracker\<lparr>peers_lock := True\<rparr>)"
  by (rule heartbeat_unknown_peer_blocks [where k = "KStr ''p1''"])
     (simp_all add: py_get_def init_tracker_def)

subsection \<open>Error replies\<close>




subsection \<open>UPDATE from an unknown peer\<close>

lemma handle_update_unknown:
  assumes "map_of payload ''peer_id'' = Some pid" and "hash_key pid = Some k"
    and "peers s k = None" and "\<not> peers_lock s"
  shows "handle_update now s payload ra ip port =
     Returns (s\<lparr>peers := (peers s)(k \<mapsto> \<lparr>files = py_get_default payload ''files'' (JObj []),
                                         last_seen = now, addr = (ip, port)\<rparr>),
               sent := sent s @ [(ra, PeersList (peers s))]\<rparr>)"
proof -
  have "(peers s)(k := None) = peers s"
    using assms(3) by (simp add: fun_upd_idem)
  then show ?thesis
    using assms
    by (simp add: handle_update_def acquire_def release_def send_peers_list_def
        send_response_def Let_def)
qed

text \<open>
  C5. The claim: an UPDATE from an unknown peer creates a record only if the request carries
  a port. The code creates the record whatever \<^verbatim>\<open>port\<close> is, also when it is absent
  (the address then interpolates \<^verbatim>\<open>None\<close>), and replies with the peer list.
\<close>

theorem update_unknown_peer_inserts:
  assumes "py_get d ''command'' = JStr ''UPDATE''"
    and "hash_key (py_get d ''peer_id'') = Some k"
    and "truthy (py_get d ''peer_id'')"
    and "peers s k = None"
    and "\<not> peers_lock s"
  shows "handle_decoded now s (Inr (JObj d)) response_addr =
     Returns (s\<lparr>peers := (peers s)(k \<mapsto>
                   \<lparr>files = py_get_default d ''files'' (JObj []), last_seen = now,
                    addr = (fst response_addr, py_get d ''port'')\<rparr>),
               sent := sent s @ [(response_addr, PeersList (peers s))]\<rparr>)"
proof -
  have pid: "map_of d ''peer_id'' = Some (py_get d ''peer_id'')"
    using assms(3) by (rule truthy_py_get_map_of)
  have "dispatch now s (JObj d) response_addr =
          handle_update now s d response_addr (fst response_addr) (py_get d ''port'')"
    using assms(1,3) by (simp add: dispatch_def Let_def)
  also note handle_update_unknown [OF pid assms(2,4,5)]
  finally show ?thesis
    by (simp add: handle_decoded_def)
qed

theorem update_unknown_peer_inserts_witness:
  "handle_decoded 100 init_tracker
     (Inr (JObj [(''command'', JStr ''UPDATE''), (''peer_id'', JStr ''p1''),
                 (''files'', JObj [(''x.bin'', JArr [JInt 0, JInt 1, JInt 2])]),
                 (''timestamp'', JFloat 100)]))
     (''10.0.0.1'', 40000) =
   Returns \<lparr>peers = [KStr ''p1'' \<mapsto>
                \<lparr>files = JObj [(''x.bin'', JArr [JInt 0, JInt 1, JInt 2])], last_seen = 100,
                 addr = (''10.0.0.1'', JNull)\<rparr>],
            peers_lock = False,
            sent = [((''10.0.0.1'', 40000), PeersList Map.empty)]\<rparr>"
  using update_unknown_peer_inserts [where k = "KStr ''p1''" and s = init_tracker
      and now = 100 and response_addr = "(''10.0.0.1'', 40000)"
      and d = "[(''command'', JStr ''UPDATE''), (''peer_id'', JStr ''p1''),
                 (''files'', JObj [(''x.bin'', JArr [JInt 0, JInt 1, JInt 2])]),
                 (''timestamp'', JFloat 100)]"]
  by (simp add: py_get_def py_get_default_def init_tracker_def)

subsection \<open>The reaper\<close>

text \<open>
  C9. From a state where the lock is free, a reaper pass returns; it removes exactly the
  records with \<open>now - last_seen > 120\<close> and leaves every other record as it was, so each
  record that remains has \<open>now - last_seen \<le> 120\<close>; it sends nothing and frees the lock.
\<close>

theorem reaper_pass_evicts_stale:
  assumes "\<not> peers_lock s"
  shows "\<exists>s'. remove_timeout_peers now s = Returns s' \<and>
           (\<forall>k. peers s' k =
              (case peers s k of
                 None \<Rightarrow> None
               | Some info \<Rightarrow> if now - last_seen info > 120 then None else Some info)) \<and>
           (\<forall>k info. peers s' k = Some info \<longrightarrow> now - last_seen info \<le> 120) \<and>
           sent s' = sent s \<and> \<not> peers_lock s'"
proof -
  let ?s' = "s\<lparr>peers := peers s |` (- to_remove now (peers s))\<rparr>"
  have run: "remove_timeout_peers now s = Returns ?s'"
    using assms by (simp add: remove_timeout_peers_def acquire_def release_def)
  have tbl: "peers ?s' k =
              (case peers s k of
                 None \<Rightarrow> None
               | Some info \<Rightarrow> if now - last_seen info > 120 then None else Some info)" for k
    by (simp add: restrict_map_def to_remove_def timeout_threshold_def
        PEER_TIMEOUT_MINUTES_def split: option.split)
  have fresh: "now - last_seen info \<le> 120" if "peers ?s' k = Some info" for k info
    using that unfolding tbl by (auto split: option.splits if_splits)
  show ?thesis
    using run tbl fresh assms by (intro exI [of _ ?s']) simp
qed

theorem reaper_pass_evicts_stale_witness:
  "remove_timeout_peers 1000
     \<lparr>peers = [KStr ''a'' \<mapsto>
                 \<lparr>files = JObj [], last_seen = 879, addr = (''10.0.0.1'', JInt 5000)\<rparr>,
               KStr ''b'' \<mapsto>
                 \<lparr>files = JObj [], last_seen = 880, addr = (''10.0.0.2'', JInt 5001)\<rparr>],
      peers_lock = False, sent = []\<rparr> =
   Returns
     \<lparr>peers = [KStr ''b'' \<mapsto>
                 \<lparr>files = JObj [], last_seen = 880, addr = (''10.0.0.2'', JInt 5001)\<rparr>],
      peers_lock = False, sent = []\<rparr>"
proof -
  let ?a = "\<lparr>files = JObj [], last_seen = 879, addr = (''10.0.0.1'', JInt 5000)\<rparr>"
  let ?b = "\<lparr>files = JObj [], last_seen = 880, addr = (''10.0.0.2'', JInt 5001)\<rparr>"
  let ?s = "\<lparr>peers = [KStr ''a'' \<mapsto> ?a, KStr ''b'' \<mapsto> ?b], peers_lock = False, sent = []\<rparr>"
  have unlocked: "\<not> peers_lock ?s" by simp
  from reaper_pass_evicts_stale [OF unlocked, of 1000]
  obtain s' where run: "remove_timeout_peers 1000 ?s = Returns s'"
    and tbl: "\<And>k. peers s' k =
              (case peers ?s k of
                 None \<Rightarrow> None
               | Some info \<Rightarrow> if 1000 - last_seen info > 120 then None else Some info)"
    and rest: "sent s' = sent ?s" "\<not> peers_lock s'"
    by blast
  have "peers s' = [KStr ''b'' \<mapsto> ?b]"
    by (rule ext) (simp add: tbl)
  with rest have "s' = \<lparr>peers = [KStr ''b'' \<mapsto> ?b], peers_lock = False, sent = []\<rparr>"
    by (cases s') simp
  with run show ?thesis by simp
qed

subsection \<open>REGISTER without a port\<close>

lemma handle_register_no_port:
  "map_of payload ''peer_id'' = Some pid \<Longrightarrow> \<not> truthy port \<Longrightarrow>
   handle_register now s payload ra ip port = Returns s"
  by (simp add: handle_register_def)

text \<open>
  C10. A REGISTER request whose \<^verbatim>\<open>port\<close> is absent or falsy is ignored: the handler
  returns with the state as it was, so the peer table is unchanged and nothing is sent.
\<close>

theorem register_without_port_ignored:
  assumes "py_get d ''command'' = JStr ''REGISTER''"
    and "truthy (py_get d ''peer_id'')"
    and "\<not> truthy (py_get d ''port'')"
  shows "handle_decoded now s (Inr (JObj d)) response_addr = Returns s"
proof -
  have pid: "map_of d ''peer_id'' = Some (py_get d ''peer_id'')"
    using assms(2) by (rule truthy_py_get_map_of)
  have "dispatch now s (JObj d) response_addr =
          handle_register now s d response_addr (fst response_addr) (py_get d ''port'')"
    using assms(1,2) by (simp add: dispatch_def Let_def)
  also have "\<dots> = Returns s"
    using pid assms(3) by (rule handle_register_no_port)
  finally show ?thesis
    by (simp add: handle_decoded_def)
qed

theorem register_without_port_ignored_witness:
  "handle_decoded 100 init_tracker
     (Inr (JObj [(''command'', JStr ''REGISTER''), (''peer_id'', JStr ''p1''),
                 (''timestamp'', JFloat 100)]))
     (''10.0.0.1'', 40000) = Returns init_tracker"
  by (rule register_without_port_ignored) (simp_all add: py_get_def)

section \<open>Properties of the content store\<close>

subsection \<open>What the operations change\<close>

lemma init_file_manager_fields:
  "shared_folder init_file_manager = Map.empty"
  "chunks_dir init_file_manager = Map.empty"
  "metadata_dir init_file_manager = Map.empty"
  "local_files_metadata init_file_manager = Map.empty"
  "available_chunks init_file_manager = Map.empty"
  by (simp_all add: init_file_manager_def)

lemma chunks_dir_save_chunk:
  "chunks_dir (save_chunk fm n i d) = (chunks_dir fm)((safe_filename n, i) \<mapsto> d)"
  by (simp add: save_chunk_def Let_def split: option.split)

lemma local_files_metadata_save_chunk:
  "local_files_metadata (save_chunk fm n i d) = local_files_metadata fm"
  by (simp add: save_chunk_def Let_def split: option.split)

lemma available_chunks_save_chunk:
  "available_chunks (save_chunk fm n i d) =
     (available_chunks fm)(n \<mapsto> insert i (case available_chunks fm n of None \<Rightarrow> {} | Some cs \<Rightarrow> cs))"
  by (simp add: save_chunk_def Let_def split: option.split)

lemma shared_folder_save_chunk:
  "shared_folder (save_chunk fm n i d) = shared_folder fm"
  by (simp add: save_chunk_def Let_def split: option.split)

lemma load_chunk_save_chunk:
  "load_chunk (save_chunk fm n i d) n j = (if j = i then Some d else load_chunk fm n j)"
  by (simp add: load_chunk_def chunks_dir_save_chunk)

lemma dom_available_chunks_save_chunk:
  "dom (available_chunks (save_chunk fm n i d)) = insert n (dom (available_chunks fm))"
  by (simp add: available_chunks_save_chunk)

lemma local_files_metadata_save_chunks:
  "local_files_metadata (save_chunks fm n js rest) = local_files_metadata fm"
  by (induction js arbitrary: fm rest) (simp_all add: local_files_metadata_save_chunk)

lemma shared_folder_save_chunks:
  "shared_folder (save_chunks fm n js rest) = shared_folder fm"
  by (induction js arbitrary: fm rest) (simp_all add: shared_folder_save_chunk)

lemma dom_available_chunks_save_chunks:
  "dom (available_chunks (save_chunks fm n js rest)) =
     (if js = [] then dom (available_chunks fm) else insert n (dom (available_chunks fm)))"
  by (induction js arbitrary: fm rest) (auto simp add: dom_available_chunks_save_chunk)

lemma local_files_metadata_save_metadata:
  "local_files_metadata (snd (save_metadata fm n)) = local_files_metadata fm"
  by (simp add: save_metadata_def get_file_metadata_def split: option.split)

lemma available_chunks_save_metadata:
  "available_chunks (snd (save_metadata fm n)) = available_chunks fm"
  by (simp add: save_metadata_def get_file_metadata_def split: option.split)

lemma chunks_dir_save_metadata:
  "chunks_dir (snd (save_metadata fm n)) = chunks_dir fm"
  by (simp add: save_metadata_def get_file_metadata_def split: option.split)

lemma save_metadata_raises:
  "fst (save_metadata fm n) =
     (case local_files_metadata fm n of
        None \<Rightarrow> None
      | Some meta \<Rightarrow>
          if interpolation_ok (fileName meta) \<and> interpolation_ok (fileHash meta) then None
          else Some ValueError)"
  by (simp add: save_metadata_def get_file_metadata_def split: option.split)

lemma reconstruct_file_maps:
  "local_files_metadata (snd (reconstruct_file sha256 fm file_name)) = local_files_metadata fm \<and>
   available_chunks (snd (reconstruct_file sha256 fm file_name)) = available_chunks fm \<and>
   chunks_dir (snd (reconstruct_file sha256 fm file_name)) = chunks_dir fm"
  by (simp add: reconstruct_file_def split: option.split)

subsection \<open>Split, then join\<close>

lemma load_chunk_save_chunks:
  "load_chunk (save_chunks fm n [j..<k] rest) n i =
     (if j \<le> i \<and> i < k then Some (take CHUNK_SIZE (drop ((i - j) * CHUNK_SIZE) rest))
      else load_chunk fm n i)"
proof (induction "k - j" arbitrary: fm j rest)
  case 0
  then have kj: "k \<le> j" by simp
  then have "load_chunk (save_chunks fm n [j..<k] rest) n i = load_chunk fm n i"
    by simp
  moreover have "\<not> (j \<le> i \<and> i < k)" using kj by linarith
  ultimately show ?case by (simp only: if_False)
next
  case (Suc m)
  then have jk: "j < k" and m: "m = k - Suc j" by simp_all
  have unfold: "[j..<k] = j # [Suc j..<k]"
    using jk by (rule upt_conv_Cons)
  have step: "load_chunk (save_chunks fm n [j..<k] rest) n i =
      (if Suc j \<le> i \<and> i < k
       then Some (take CHUNK_SIZE (drop ((i - Suc j) * CHUNK_SIZE) (drop CHUNK_SIZE rest)))
       else load_chunk (save_chunk fm n j (take CHUNK_SIZE rest)) n i)"
    unfolding unfold save_chunks.simps by (rule Suc.hyps(1) [OF m])
  show ?case
  proof (cases "Suc j \<le> i")
    case True
    then have "i - j = Suc (i - Suc j)" by linarith
    then have "(i - Suc j) * CHUNK_SIZE + CHUNK_SIZE = (i - j) * CHUNK_SIZE"
      by (simp only: mult_Suc add.commute)
    then have "drop ((i - Suc j) * CHUNK_SIZE) (drop CHUNK_SIZE rest) =
               drop ((i - j) * CHUNK_SIZE) rest"
      by (simp add: add.commute)
    with True step show ?thesis by (simp add: load_chunk_save_chunk)
  next
    case False
    then have "i < j \<or> i = j" by linarith
    then show ?thesis
    proof
      assume "i < j"
      with step False show ?thesis by (simp add: load_chunk_save_chunk)
    next
      assume "i = j"
      with step jk show ?thesis by (simp add: load_chunk_save_chunk)
    qed
  qed
qed

lemma read_chunks_Some:
  "(\<And>i. i \<in> set js \<Longrightarrow> load_chunk fm n i = Some (f i)) \<Longrightarrow>
   read_chunks fm n js = Some (concat (map f js))"
  by (induction js) simp_all

lemma concat_chunks_take:
  "concat (map (\<lambda>i. take c (drop (i * c) S)) [0..<k]) = take (k * c) S"
proof (induction k)
  case 0
  then show ?case by simp
next
  case (Suc k)
  have "take (k * c) S @ take c (drop (k * c) S) = take (k * c + c) S"
    by (simp add: take_add)
  with Suc show ?case by (simp add: add.commute)
qed

lemma ceil_div_covers:
  assumes "0 < c"
  shows "(n::nat) \<le> ((n + c - 1) div c) * c"
proof -
  have "n + c - 1 < ((n + c - 1) div c) * c + c"
    using assms by (metis add.commute mod_div_mult_eq add_less_cancel_right mod_less_divisor
        nat_add_left_cancel_less)
  then show ?thesis using assms by linarith
qed

lemma split_join_pure:
  "concat (map (\<lambda>i. take CHUNK_SIZE (drop (i * CHUNK_SIZE) S))
             [0..<(length S + CHUNK_SIZE - 1) div CHUNK_SIZE]) = S"
proof -
  have "0 < CHUNK_SIZE" by (simp add: CHUNK_SIZE_def)
  then have "length S \<le> ((length S + CHUNK_SIZE - 1) div CHUNK_SIZE) * CHUNK_SIZE"
    by (rule ceil_div_covers)
  then show ?thesis by (simp add: concat_chunks_take)
qed

lemma chunks_cover_nonempty:
  "S \<noteq> [] \<Longrightarrow> 0 < (length S + CHUNK_SIZE - 1) div CHUNK_SIZE"
  by (cases S) (simp_all add: div_greater_zero_iff CHUNK_SIZE_def)

lemma process_new_file_saved:
  assumes "shared_folder fm file_name = Some S" and "S \<noteq> []"
    and "interpolation_ok file_name" and "interpolation_ok (sha256 S)"
  shows "process_new_file sha256 now_ms fm file_name =
     save_chunks
       (fm\<lparr>local_files_metadata := (local_files_metadata fm)(file_name \<mapsto>
              \<lparr>fileName = file_name, fileSize = length S, fileHash = sha256 S,
               totalChunks = (length S + CHUNK_SIZE - 1) div CHUNK_SIZE,
               createdAt = now_ms\<rparr>),
            available_chunks := (available_chunks fm)(file_name \<mapsto> {}),
            metadata_dir := (metadata_dir fm)(safe_filename file_name \<mapsto>
              \<lparr>fileName = file_name, fileSize = length S, fileHash = sha256 S,
               totalChunks = (length S + CHUNK_SIZE - 1) div CHUNK_SIZE,
               createdAt = now_ms\<rparr>)\<rparr>)
       file_name [0..<(length S + CHUNK_SIZE - 1) div CHUNK_SIZE] S"
  using assms
  by (simp add: process_new_file_def save_metadata_def get_file_metadata_def Let_def)

lemma process_new_file_not_saved:
  assumes "shared_folder fm file_name = Some S" and "S \<noteq> []"
    and "\<not> interpolation_ok file_name"
  shows "process_new_file sha256 now_ms fm file_name =
     fm\<lparr>local_files_metadata := (local_files_metadata fm)(file_name \<mapsto>
            \<lparr>fileName = file_name, fileSize = length S, fileHash = sha256 S,
             totalChunks = (length S + CHUNK_SIZE - 1) div CHUNK_SIZE,
             createdAt = now_ms\<rparr>),
          available_chunks := (available_chunks fm)(file_name \<mapsto> {})\<rparr>"
  using assms
  by (simp add: process_new_file_def save_metadata_def get_file_metadata_def Let_def)

text \<open>
  Where \<^verbatim>\<open>_save_metadata\<close> accepts the file name and the digest, the chunking of
  \<^verbatim>\<open>process_new_file\<close> and the concatenation of \<^verbatim>\<open>reconstruct_file\<close> compose to the
  identity, for every content \<open>S\<close> (an empty file is skipped and has no chunk to read).
\<close>

lemma split_then_join_when_metadata_saved:
  assumes "shared_folder fm file_name = Some S"
    and "interpolation_ok file_name" and "interpolation_ok (sha256 S)"
  shows "read_chunks (process_new_file sha256 now_ms fm file_name) file_name
           [0..<(length S + CHUNK_SIZE - 1) div CHUNK_SIZE] = Some S"
    and "i < (length S + CHUNK_SIZE - 1) div CHUNK_SIZE \<Longrightarrow>
         load_chunk (process_new_file sha256 now_ms fm file_name) file_name i =
           Some (take CHUNK_SIZE (drop (i * CHUNK_SIZE) S))"
proof -
  let ?n = "(length S + CHUNK_SIZE - 1) div CHUNK_SIZE"
  let ?fm' = "process_new_file sha256 now_ms fm file_name"
  have chunk: "load_chunk ?fm' file_name j = Some (take CHUNK_SIZE (drop (j * CHUNK_SIZE) S))"
    if "j < ?n" for j
  proof (cases "S = []")
    case True
    with that show ?thesis by (simp add: CHUNK_SIZE_def)
  next
    case False
    show ?thesis
      unfolding process_new_file_saved [of fm file_name S sha256 now_ms, OF assms(1) False assms(2,3)]
      using that by (simp add: load_chunk_save_chunks)
  qed
  have "read_chunks ?fm' file_name [0..<?n] =
          Some (concat (map (\<lambda>i. take CHUNK_SIZE (drop (i * CHUNK_SIZE) S)) [0..<?n]))"
    by (rule read_chunks_Some) (simp add: chunk)
  then show "read_chunks ?fm' file_name [0..<?n] = Some S"
    using split_join_pure [of S] by (rule back_subst [where P = "\<lambda>x. _ = Some x"])
  show "load_chunk ?fm' file_name i = Some (take CHUNK_SIZE (drop (i * CHUNK_SIZE) S))"
    if "i < ?n"
    using that by (rule chunk)
qed

text \<open>
  C8. The claim: for every byte string \<open>S\<close>, the chunking that \<^verbatim>\<open>process_new_file\<close>
  performs, followed by the concatenation that \<^verbatim>\<open>reconstruct_file\<close> performs, gives
  back \<open>S\<close>. The slices themselves do concatenate to \<open>S\<close> (\<open>split_join_pure\<close>), and the
  two loops compose to the identity wherever the metadata file can be written (the lemma
  above). But for a non-empty file whose name the configuration writer rejects, such as
  \<^verbatim>\<open>100%.bin\<close>, \<^verbatim>\<open>process_new_file\<close> records the metadata and an empty chunk set,
  then \<^verbatim>\<open>_save_metadata\<close> raises ValueError and the method returns before its chunk
  loop: no chunk is written, and unless a chunk 0 was on disk before, the concatenation
  loop of \<^verbatim>\<open>reconstruct_file\<close> finds chunk 0 missing instead of reading \<open>S\<close>.
\<close>

theorem rejected_name_stops_chunking:
  assumes "shared_folder fm file_name = Some S" and "S \<noteq> []"
    and "\<not> interpolation_ok file_name"
  shows "process_new_file sha256 now_ms fm file_name =
           fm\<lparr>local_files_metadata := (local_files_metadata fm)(file_name \<mapsto>
                  \<lparr>fileName = file_name, fileSize = length S, fileHash = sha256 S,
                   totalChunks = (length S + CHUNK_SIZE - 1) div CHUNK_SIZE,
                   createdAt = now_ms\<rparr>),
                available_chunks := (available_chunks fm)(file_name \<mapsto> {})\<rparr> \<and>
         chunks_dir (process_new_file sha256 now_ms fm file_name) = chunks_dir fm \<and>
         0 < (length S + CHUNK_SIZE - 1) div CHUNK_SIZE \<and>
         (load_chunk fm file_name 0 = None \<longrightarrow>
            read_chunks (process_new_file sha256 now_ms fm file_name) file_name
              [0..<(length S + CHUNK_SIZE - 1) div CHUNK_SIZE] = None)"
proof -
  let ?n = "(length S + CHUNK_SIZE - 1) div CHUNK_SIZE"
  let ?fm1 = "fm\<lparr>local_files_metadata := (local_files_metadata fm)(file_name \<mapsto>
                  \<lparr>fileName = file_name, fileSize = length S, fileHash = sha256 S,
                   totalChunks = ?n, createdAt = now_ms\<rparr>),
                available_chunks := (available_chunks fm)(file_name \<mapsto> {})\<rparr>"
  have run: "process_new_file sha256 now_ms fm file_name = ?fm1"
    using assms by (rule process_new_file_not_saved)
  have pos: "0 < ?n"
    using assms(2) by (rule chunks_cover_nonempty)
  then have range: "[0..<?n] = 0 # [Suc 0..<?n]"
    by (rule upt_conv_Cons)
  have "read_chunks ?fm1 file_name [0..<?n] = None" if "load_chunk fm file_name 0 = None"
  proof -
    from that have "load_chunk ?fm1 file_name 0 = None"
      by (simp add: load_chunk_def)
    then show ?thesis
      unfolding range by simp
  qed
  with run pos show ?thesis
    by simp
qed

theorem rejected_name_stops_chunking_witness:
  "process_new_file (\<lambda>content. ''digest'') 0
     (init_file_manager\<lparr>shared_folder := [''100%.bin'' \<mapsto> [0x61]]\<rparr>) ''100%.bin'' =
   init_file_manager
     \<lparr>shared_folder := [''100%.bin'' \<mapsto> [0x61]],
      local_files_metadata :=
        [''100%.bin'' \<mapsto>
           \<lparr>fileName = ''100%.bin'', fileSize = 1, fileHash = ''digest'', totalChunks = 1,
            createdAt = 0\<rparr>],
      available_chunks := [''100%.bin'' \<mapsto> {}]\<rparr> \<and>
   chunks_dir
     (process_new_file (\<lambda>content. ''digest'') 0
        (init_file_manager\<lparr>shared_folder := [''100%.bin'' \<mapsto> [0x61]]\<rparr>) ''100%.bin'') =
     Map.empty \<and>
   read_chunks
     (process_new_file (\<lambda>content. ''digest'') 0
        (init_file_manager\<lparr>shared_folder := [''100%.bin'' \<mapsto> [0x61]]\<rparr>) ''100%.bin'')
     ''100%.bin'' [0..<1] = None"
proof -
  let ?fm = "init_file_manager\<lparr>shared_folder := [''100%.bin'' \<mapsto> [0x61]]\<rparr>"
  have there: "shared_folder ?fm ''100%.bin'' = Some [0x61]"
    by simp
  have nonempty: "[0x61 :: byte] \<noteq> []"
    by simp
  have rejected: "\<not> interpolation_ok ''100%.bin''"
    by (simp add: interpolation_ok_def key_length_def)
  have n: "(length [0x61 :: byte] + CHUNK_SIZE - 1) div CHUNK_SIZE = 1"
    by (simp add: CHUNK_SIZE_def)
  have absent: "load_chunk ?fm ''100%.bin'' 0 = None"
    by (simp add: load_chunk_def init_file_manager_fields)
  note inst = rejected_name_stops_chunking [OF there nonempty rejected,
      of "\<lambda>content. ''digest''" 0]
  from inst have state: "process_new_file (\<lambda>content. ''digest'') 0 ?fm ''100%.bin'' =
      ?fm\<lparr>local_files_metadata := (local_files_metadata ?fm)(''100%.bin'' \<mapsto>
              \<lparr>fileName = ''100%.bin'', fileSize = length [0x61 :: byte],
               fileHash = ''digest'',
               totalChunks = (length [0x61 :: byte] + CHUNK_SIZE - 1) div CHUNK_SIZE,
               createdAt = 0\<rparr>),
            available_chunks := (available_chunks ?fm)(''100%.bin'' \<mapsto> {})\<rparr>"
    by (elim conjE)
  from inst have disk: "chunks_dir (process_new_file (\<lambda>content. ''digest'') 0 ?fm ''100%.bin'') =
      chunks_dir ?fm"
    by (elim conjE)
  from inst absent have read: "read_chunks (process_new_file (\<lambda>content. ''digest'') 0 ?fm
      ''100%.bin'') ''100%.bin''
      [0..<(length [0x61 :: byte] + CHUNK_SIZE - 1) div CHUNK_SIZE] = None"
    by (elim conjE) (erule mp)
  have s1: "process_new_file (\<lambda>content. ''digest'') 0 ?fm ''100%.bin'' =
      init_file_manager
       \<lparr>shared_folder := [''100%.bin'' \<mapsto> [0x61]],
        local_files_metadata :=
          [''100%.bin'' \<mapsto>
             \<lparr>fileName = ''100%.bin'', fileSize = 1, fileHash = ''digest'', totalChunks = 1,
              createdAt = 0\<rparr>],
        available_chunks := [''100%.bin'' \<mapsto> {}]\<rparr>"
    unfolding state n by (simp add: init_file_manager_fields)
  have s2: "chunks_dir (process_new_file (\<lambda>content. ''digest'') 0 ?fm ''100%.bin'') = Map.empty"
    unfolding disk by (simp add: init_file_manager_fields)
  have s3: "read_chunks (process_new_file (\<lambda>content. ''digest'') 0 ?fm ''100%.bin'')
      ''100%.bin'' [0..<1] = None"
    using read unfolding n .
  from s1 s2 s3 show ?thesis
    by (intro conjI)
qed

subsection \<open>Reconstruction\<close>

text \<open>
  C2, as amended. Whenever \<^verbatim>\<open>reconstruct_file\<close> returns True, the file has metadata and
  either a file of that name and of the recorded size was already in the shared folder, and
  then nothing was read, hashed or written; or the file now at that name is the
  concatenation of the chunks and its digest equals the recorded \<^verbatim>\<open>fileHash\<close>. And a
  complete file whose name already holds content of the recorded size makes
  \<^verbatim>\<open>reconstruct_file\<close> return True with the store untouched, whatever that content is.
  The digest function is any function of the content.
\<close>

theorem reconstruct_file_success:
  "(reconstruct_file sha256 fm file_name = (True, fm') \<longrightarrow>
      (\<exists>meta. local_files_metadata fm file_name = Some meta \<and>
         ((\<exists>existing. shared_folder fm file_name = Some existing \<and>
                      length existing = fileSize meta \<and> fm' = fm) \<or>
          (\<exists>written. read_chunks fm file_name [0..<totalChunks meta] = Some written \<and>
                     shared_folder fm' file_name = Some written \<and>
                     sha256 written = fileHash meta)))) \<and>
   (has_complete_file fm2 file_name2 \<and> local_files_metadata fm2 file_name2 = Some meta2 \<and>
    shared_folder fm2 file_name2 = Some existing2 \<and> length existing2 = fileSize meta2 \<longrightarrow>
      reconstruct_file sha256 fm2 file_name2 = (True, fm2))"
proof (intro conjI impI)
  assume run: "reconstruct_file sha256 fm file_name = (True, fm')"
  then obtain meta where meta: "local_files_metadata fm file_name = Some meta"
    by (cases "local_files_metadata fm file_name")
       (simp_all add: reconstruct_file_def has_complete_file_def get_file_metadata_def)
  show "\<exists>meta. local_files_metadata fm file_name = Some meta \<and>
         ((\<exists>existing. shared_folder fm file_name = Some existing \<and>
                      length existing = fileSize meta \<and> fm' = fm) \<or>
          (\<exists>written. read_chunks fm file_name [0..<totalChunks meta] = Some written \<and>
                     shared_folder fm' file_name = Some written \<and>
                     sha256 written = fileHash meta))"
    using run meta
    by (intro exI [of _ meta])
       (auto simp add: reconstruct_file_def get_file_metadata_def
          split: if_splits option.splits)
next
  assume "has_complete_file fm2 file_name2 \<and> local_files_metadata fm2 file_name2 = Some meta2 \<and>
    shared_folder fm2 file_name2 = Some existing2 \<and> length existing2 = fileSize meta2"
  then show "reconstruct_file sha256 fm2 file_name2 = (True, fm2)"
    by (simp add: reconstruct_file_def get_file_metadata_def)
qed

theorem reconstruct_file_success_witness:
  "(\<exists>written.
      shared_folder
        (snd (reconstruct_file (\<lambda>content. if content = [0x61] then ''ca'' else ''3e'')
           (init_file_manager
              \<lparr>chunks_dir := [(''x.bin'', 0) \<mapsto> [0x61]],
               local_files_metadata :=
                 [''x.bin'' \<mapsto> \<lparr>fileName = ''x.bin'', fileSize = 1, fileHash = ''ca'',
                                 totalChunks = 1, createdAt = 0\<rparr>],
               available_chunks := [''x.bin'' \<mapsto> {0}]\<rparr>)
           ''x.bin'')) ''x.bin'' = Some written \<and>
      (if written = [0x61] then ''ca'' else ''3e'') = ''ca'') \<and>
   reconstruct_file (\<lambda>content. if content = [0x61] then ''ca'' else ''3e'')
     (init_file_manager
        \<lparr>shared_folder := [''x.bin'' \<mapsto> [0x62]],
         chunks_dir := [(''x.bin'', 0) \<mapsto> [0x61]],
         local_files_metadata :=
           [''x.bin'' \<mapsto> \<lparr>fileName = ''x.bin'', fileSize = 1, fileHash = ''ca'',
                           totalChunks = 1, createdAt = 0\<rparr>],
         available_chunks := [''x.bin'' \<mapsto> {0}]\<rparr>)
     ''x.bin'' =
   (True,
    init_file_manager
        \<lparr>shared_folder := [''x.bin'' \<mapsto> [0x62]],
         chunks_dir := [(''x.bin'', 0) \<mapsto> [0x61]],
         local_files_metadata :=
           [''x.bin'' \<mapsto> \<lparr>fileName = ''x.bin'', fileSize = 1, fileHash = ''ca'',
                           totalChunks = 1, createdAt = 0\<rparr>],
         available_chunks := [''x.bin'' \<mapsto> {0}]\<rparr>)"
proof -
  let ?d = "\<lambda>content :: byte list. if content = [0x61] then ''ca'' else ''3e''"
  let ?meta = "\<lparr>fileName = ''x.bin'', fileSize = 1, fileHash = ''ca'',
                 totalChunks = 1, createdAt = 0\<rparr>"
  let ?fm = "init_file_manager
              \<lparr>chunks_dir := [(''x.bin'', 0) \<mapsto> [0x61]],
               local_files_metadata := [''x.bin'' \<mapsto> ?meta],
               available_chunks := [''x.bin'' \<mapsto> {0}]\<rparr>"
  let ?fm2 = "init_file_manager
        \<lparr>shared_folder := [''x.bin'' \<mapsto> [0x62]],
         chunks_dir := [(''x.bin'', 0) \<mapsto> [0x61]],
         local_files_metadata := [''x.bin'' \<mapsto> ?meta],
         available_chunks := [''x.bin'' \<mapsto> {0}]\<rparr>"
  have safe: "safe_filename ''x.bin'' = ''x.bin''"
    by (simp add: safe_filename_def rstrip_def isalnum_def isspace_def)
  have part: "with_suffix ''x.bin'' ''.part'' = Some ''x.part''"
    by (simp add: with_suffix_def path_suffix_def)
  have complete: "has_complete_file ?fm ''x.bin''" "has_complete_file ?fm2 ''x.bin''"
    by (simp_all add: has_complete_file_def get_file_metadata_def)
  have run: "reconstruct_file ?d ?fm ''x.bin'' =
               (True, ?fm\<lparr>shared_folder := [''x.bin'' \<mapsto> [0x61]]\<rparr>)"
    by (simp add: reconstruct_file_def has_complete_file_def get_file_metadata_def
        init_file_manager_fields part load_chunk_def safe)
  have pre2: "has_complete_file ?fm2 ''x.bin'' \<and>
              local_files_metadata ?fm2 ''x.bin'' = Some ?meta \<and>
              shared_folder ?fm2 ''x.bin'' = Some [0x62] \<and>
              length [0x62 :: byte] = fileSize ?meta"
    using complete(2) by simp
  note inst = reconstruct_file_success [of ?d ?fm "''x.bin''"
      "?fm\<lparr>shared_folder := [''x.bin'' \<mapsto> [0x61]]\<rparr>" ?fm2 "''x.bin''" ?meta "[0x62]"]
  from inst run have "\<exists>written.
      shared_folder (?fm\<lparr>shared_folder := [''x.bin'' \<mapsto> [0x61]]\<rparr>) ''x.bin'' = Some written \<and>
      ?d written = ''ca''"
    by (auto simp add: init_file_manager_fields)
  moreover from inst pre2 have "reconstruct_file ?d ?fm2 ''x.bin'' = (True, ?fm2)"
    by blast
  ultimately show ?thesis
    by (simp only: run snd_conv)
qed

text \<open>
  C2 as stated fails on the path it names. The store holds the metadata of a one-byte file
  whose recorded hash is the SHA-256 digest of \<^verbatim>\<open>b"a"\<close>, the chunk \<^verbatim>\<open>b"a"\<close>, and at
  the file's name the byte \<^verbatim>\<open>b"b"\<close>. Whatever the digest function,
  \<^verbatim>\<open>reconstruct_file\<close> returns True and leaves \<^verbatim>\<open>b"b"\<close> in place; so no digest
  function that tells \<^verbatim>\<open>b"b"\<close> from the recorded hash, as SHA-256 does (the digest of
  \<^verbatim>\<open>b"b"\<close> begins 3e23e816), satisfies the claim here.
\<close>

theorem existing_file_is_not_hashed:
  "(\<forall>sha256.
      reconstruct_file sha256
        (init_file_manager
           \<lparr>shared_folder := [''x.bin'' \<mapsto> [0x62]],
            chunks_dir := [(''x.bin'', 0) \<mapsto> [0x61]],
            local_files_metadata :=
              [''x.bin'' \<mapsto>
                 \<lparr>fileName = ''x.bin'', fileSize = 1,
                  fileHash =
                    ''ca978112ca1bbdcafac231b39a23dc4da786eff8147c4e72b9807785afee48bb'',
                  totalChunks = 1, createdAt = 0\<rparr>],
            available_chunks := [''x.bin'' \<mapsto> {0}]\<rparr>)
        ''x.bin'' =
      (True,
       init_file_manager
           \<lparr>shared_folder := [''x.bin'' \<mapsto> [0x62]],
            chunks_dir := [(''x.bin'', 0) \<mapsto> [0x61]],
            local_files_metadata :=
              [''x.bin'' \<mapsto>
                 \<lparr>fileName = ''x.bin'', fileSize = 1,
                  fileHash =
                    ''ca978112ca1bbdcafac231b39a23dc4da786eff8147c4e72b9807785afee48bb'',
                  totalChunks = 1, createdAt = 0\<rparr>],
            available_chunks := [''x.bin'' \<mapsto> {0}]\<rparr>)) \<and>
   \<not> (\<exists>sha256.
         sha256 [0x62] \<noteq> ''ca978112ca1bbdcafac231b39a23dc4da786eff8147c4e72b9807785afee48bb'' \<and>
         (\<forall>fm'.
            reconstruct_file sha256
              (init_file_manager
                 \<lparr>shared_folder := [''x.bin'' \<mapsto> [0x62]],
                  chunks_dir := [(''x.bin'', 0) \<mapsto> [0x61]],
                  local_files_metadata :=
                    [''x.bin'' \<mapsto>
                       \<lparr>fileName = ''x.bin'', fileSize = 1,
                        fileHash =
                          ''ca978112ca1bbdcafac231b39a23dc4da786eff8147c4e72b9807785afee48bb'',
                        totalChunks = 1, createdAt = 0\<rparr>],
                  available_chunks := [''x.bin'' \<mapsto> {0}]\<rparr>)
              ''x.bin'' = (True, fm') \<longrightarrow>
            (\<exists>content.
               shared_folder fm' ''x.bin'' = Some content \<and>
               sha256 content =
                 ''ca978112ca1bbdcafac231b39a23dc4da786eff8147c4e72b9807785afee48bb'')))"
proof -
  let ?h = "''ca978112ca1bbdcafac231b39a23dc4da786eff8147c4e72b9807785afee48bb''"
  let ?fm = "init_file_manager
           \<lparr>shared_folder := [''x.bin'' \<mapsto> [0x62]],
            chunks_dir := [(''x.bin'', 0) \<mapsto> [0x61]],
            local_files_metadata :=
              [''x.bin'' \<mapsto>
                 \<lparr>fileName = ''x.bin'', fileSize = 1, fileHash = ?h,
                  totalChunks = 1, createdAt = 0\<rparr>],
            available_chunks := [''x.bin'' \<mapsto> {0}]\<rparr>"
  have complete: "has_complete_file ?fm ''x.bin''"
    by (simp add: has_complete_file_def get_file_metadata_def)
  have run: "reconstruct_file sha256 ?fm ''x.bin'' = (True, ?fm)" for sha256
    by (simp add: reconstruct_file_def has_complete_file_def get_file_metadata_def)
  have there: "shared_folder ?fm ''x.bin'' = Some [0x62]"
    by simp
  have "False" if sep: "sha256 [0x62] \<noteq> ?h"
    and claim: "\<forall>fm'. reconstruct_file sha256 ?fm ''x.bin'' = (True, fm') \<longrightarrow>
            (\<exists>content. shared_folder fm' ''x.bin'' = Some content \<and> sha256 content = ?h)"
    for sha256
  proof -
    from claim run [of sha256] obtain content
      where "shared_folder ?fm ''x.bin'' = Some content" and "sha256 content = ?h"
      by blast
    with there sep show False by simp
  qed
  with run show ?thesis by blast
qed

subsection \<open>Chunks and metadata\<close>

lemma save_chunk_keeps_invariant:
  assumes "chunks_have_metadata fm" and "local_files_metadata fm file_name \<noteq> None"
  shows "chunks_have_metadata (save_chunk fm file_name i data)"
  using assms
  by (auto simp add: chunks_have_metadata_def dom_available_chunks_save_chunk
      local_files_metadata_save_chunk)

lemma process_new_file_keeps_invariant:
  assumes "chunks_have_metadata fm"
  shows "chunks_have_metadata (process_new_file sha256 now_ms fm file_name)"
proof (cases "shared_folder fm file_name")
  case None
  with assms show ?thesis by (simp add: process_new_file_def)
next
  case (Some content)
  show ?thesis
  proof (cases "content = []")
    case True
    with Some assms show ?thesis by (simp add: process_new_file_def)
  next
    case False
    let ?n = "(length content + CHUNK_SIZE - 1) div CHUNK_SIZE"
    let ?fm1 = "fm\<lparr>local_files_metadata := (local_files_metadata fm)(file_name \<mapsto>
                    \<lparr>fileName = file_name, fileSize = length content,
                     fileHash = sha256 content, totalChunks = ?n, createdAt = now_ms\<rparr>),
                  available_chunks := (available_chunks fm)(file_name \<mapsto> {})\<rparr>"
    obtain e fm2 where sm: "save_metadata ?fm1 file_name = (e, fm2)"
      by (cases "save_metadata ?fm1 file_name")
    then have fm2: "fm2 = snd (save_metadata ?fm1 file_name)"
      by simp
    have maps: "local_files_metadata fm2 = local_files_metadata ?fm1"
      "available_chunks fm2 = available_chunks ?fm1"
      unfolding fm2
      by (rule local_files_metadata_save_metadata, rule available_chunks_save_metadata)
    have run: "process_new_file sha256 now_ms fm file_name =
        (case e of Some x \<Rightarrow> fm2 | None \<Rightarrow> save_chunks fm2 file_name [0..<?n] content)"
      using Some False sm
      by (simp add: process_new_file_def Let_def split: option.split)
    show ?thesis
      unfolding run using assms
      by (cases e)
         (auto simp add: chunks_have_metadata_def maps dom_available_chunks_save_chunks
            local_files_metadata_save_chunks split: if_splits)
  qed
qed

text \<open>
  C6, as amended. From a store in which every key of \<^verbatim>\<open>available_chunks\<close> has a
  metadata record, \<^verbatim>\<open>save_chunk\<close> for a file that has a metadata record,
  \<^verbatim>\<open>process_new_file\<close>, \<^verbatim>\<open>reconstruct_file\<close> and \<^verbatim>\<open>_save_metadata\<close> lead to a
  store with the same property.
\<close>

theorem store_operations_keep_invariant:
  assumes "chunks_have_metadata fm"
  shows "(local_files_metadata fm file_name \<noteq> None \<longrightarrow>
            chunks_have_metadata (save_chunk fm file_name i data)) \<and>
         chunks_have_metadata (process_new_file sha256 now_ms fm file_name) \<and>
         chunks_have_metadata (snd (reconstruct_file sha256 fm file_name)) \<and>
         chunks_have_metadata (snd (save_metadata fm file_name))"
proof (intro conjI impI)
  assume "local_files_metadata fm file_name \<noteq> None"
  with assms show "chunks_have_metadata (save_chunk fm file_name i data)"
    by (rule save_chunk_keeps_invariant)
next
  show "chunks_have_metadata (process_new_file sha256 now_ms fm file_name)"
    using assms by (rule process_new_file_keeps_invariant)
next
  show "chunks_have_metadata (snd (reconstruct_file sha256 fm file_name))"
    using assms by (simp add: chunks_have_metadata_def reconstruct_file_maps)
next
  show "chunks_have_metadata (snd (save_metadata fm file_name))"
    using assms
    by (simp add: chunks_have_metadata_def local_files_metadata_save_metadata
        available_chunks_save_metadata)
qed

theorem store_operations_keep_invariant_witness:
  "chunks_have_metadata
     (save_chunk
        (init_file_manager\<lparr>local_files_metadata :=
           [''x.bin'' \<mapsto> \<lparr>fileName = ''x.bin'', fileSize = 1, fileHash = ''ca'',
                           totalChunks = 1, createdAt = 0\<rparr>]\<rparr>)
        ''x.bin'' 0 [0x61])"
proof -
  let ?fm = "init_file_manager\<lparr>local_files_metadata :=
           [''x.bin'' \<mapsto> \<lparr>fileName = ''x.bin'', fileSize = 1, fileHash = ''ca'',
                           totalChunks = 1, createdAt = 0\<rparr>]\<rparr>"
  have inv: "chunks_have_metadata ?fm"
    by (simp add: chunks_have_metadata_def init_file_manager_def)
  have known: "local_files_metadata ?fm ''x.bin'' \<noteq> None" by simp
  from store_operations_keep_invariant [OF inv, of "''x.bin''" 0 "[0x61]"] known
  show ?thesis by blast
qed

text \<open>
  C6 as stated fails: in the empty store, \<^verbatim>\<open>save_chunk\<close> for a file without metadata
  creates the key in \<^verbatim>\<open>available_chunks\<close> and no metadata record.
\<close>

theorem save_chunk_unknown_file_breaks_invariant:
  "chunks_have_metadata init_file_manager \<and>
   \<not> chunks_have_metadata (save_chunk init_file_manager ''x.bin'' 0 [0x61])"
  by (simp add: chunks_have_metadata_def init_file_manager_def available_chunks_save_chunk
      local_files_metadata_save_chunk)

section \<open>Properties of the scheduler\<close>

lemma count_chunk_at:
  "count_chunk c freq i =
     (case freq i of None \<Rightarrow> None | Some n \<Rightarrow> Some (n + (if c = i then 1 else 0)))"
  by (simp add: count_chunk_def split: option.split)

lemma fold_count_chunk:
  "fold count_chunk chunk_list freq i =
     (case freq i of None \<Rightarrow> None | Some n \<Rightarrow> Some (n + count_list chunk_list i))"
proof (induction chunk_list arbitrary: freq)
  case Nil
  then show ?case by (simp split: option.split)
next
  case (Cons c cs)
  have "fold count_chunk (c # cs) freq i = fold count_chunk cs (count_chunk c freq) i"
    by simp
  also have "\<dots> = (case count_chunk c freq i of
                      None \<Rightarrow> None
                    | Some n \<Rightarrow> Some (n + count_list cs i))"
    by (rule Cons.IH)
  also have "\<dots> = (case freq i of
                      None \<Rightarrow> None
                    | Some n \<Rightarrow> Some (n + count_list (c # cs) i))"
    unfolding count_chunk_at by (simp split: option.split)
  finally show ?case .
qed

lemma count_peer_at:
  "count_peer file_name p freq i =
     (case freq i of
        None \<Rightarrow> None
      | Some n \<Rightarrow> Some (n + count_list (listed_chunks file_name p) i))"
  by (simp add: count_peer_def listed_chunks_def fold_count_chunk Let_def split: option.split)

lemma fold_count_peer:
  "fold (count_peer file_name) all_peers freq i =
     (case freq i of None \<Rightarrow> None | Some n \<Rightarrow> Some (n + occurrences file_name all_peers i))"
proof (induction all_peers arbitrary: freq)
  case Nil
  then show ?case by (simp add: occurrences_def split: option.split)
next
  case (Cons p ps)
  have "fold (count_peer file_name) (p # ps) freq i =
        fold (count_peer file_name) ps (count_peer file_name p freq) i"
    by simp
  also have "\<dots> = (case count_peer file_name p freq i of
                      None \<Rightarrow> None
                    | Some n \<Rightarrow> Some (n + occurrences file_name ps i))"
    by (rule Cons.IH)
  also have "\<dots> = (case freq i of
                      None \<Rightarrow> None
                    | Some n \<Rightarrow> Some (n + occurrences file_name (p # ps) i))"
    unfolding count_peer_at by (simp add: occurrences_def split: option.split)
  finally show ?case .
qed

lemma initial_frequency:
  "map_of (map (\<lambda>chunk_idx. (chunk_idx, 0::nat)) needed) i =
     (if i \<in> set needed then Some 0 else None)"
  by (induction needed) simp_all

lemma insort_key_agree:
  "f x = g x \<Longrightarrow> (\<And>y. y \<in> set ys \<Longrightarrow> f y = g y) \<Longrightarrow>
   insort_key f x ys = insort_key g x ys"
  by (induction ys) simp_all

lemma sort_key_agree:
  "(\<And>x. x \<in> set xs \<Longrightarrow> f x = g x) \<Longrightarrow> sort_key f xs = sort_key g xs"
proof (induction xs)
  case Nil
  then show ?case by simp
next
  case (Cons x xs)
  then have "sort_key f xs = sort_key g xs" by simp
  moreover have "insort_key f x (sort_key g xs) = insort_key g x (sort_key g xs)"
    by (rule insort_key_agree) (simp_all add: Cons.prems)
  ultimately show ?case by simp
qed

lemma rarest_is_stable_sort:
  "get_rarest_chunks_first needed file_name all_peers =
     sort_key (occurrences file_name all_peers) needed"
  unfolding get_rarest_chunks_first_def Let_def
  by (rule sort_key_agree) (simp add: fold_count_peer initial_frequency)

lemma count_list_distinct:
  "distinct xs \<Longrightarrow> count_list xs i = (if i \<in> set xs then 1 else 0)"
  by (induction xs) auto

lemma occurrences_distinct:
  assumes "\<And>p. p \<in> set all_peers \<Longrightarrow> distinct (listed_chunks file_name p)"
  shows "occurrences file_name all_peers i = peers_listing file_name all_peers i"
  using assms
  by (induction all_peers) (simp_all add: occurrences_def peers_listing_def count_list_distinct)

lemma rarer_insort:
  assumes "sorted_wrt (rarer score) ys" and "\<And>y. y \<in> set ys \<Longrightarrow> x \<le> y"
  shows "sorted_wrt (rarer score) (insort_key score x ys)"
  using assms
proof (induction ys)
  case Nil
  then show ?case by simp
next
  case (Cons y ys)
  show ?case
  proof (cases "score x \<le> score y")
    case True
    have "rarer score x z" if "z \<in> set (y # ys)" for z
    proof -
      have "score y \<le> score z"
        using that Cons.prems(1) by (auto simp add: rarer_def)
      with True have "score x \<le> score z" by simp
      moreover have "x \<le> z" using that Cons.prems(2) by simp
      ultimately show ?thesis by (auto simp add: rarer_def)
    qed
    with True Cons.prems(1) show ?thesis by simp
  next
    case False
    then have "rarer score y x" by (simp add: rarer_def)
    moreover have "sorted_wrt (rarer score) (insort_key score x ys)"
      using Cons.prems by (intro Cons.IH) simp_all
    ultimately show ?thesis
      using False Cons.prems(1) by (auto simp add: set_insort_key)
  qed
qed

lemma rarer_sort_key:
  "sorted xs \<Longrightarrow> sorted_wrt (rarer score) (sort_key score xs)"
proof (induction xs)
  case Nil
  then show ?case by simp
next
  case (Cons x xs)
  then have "sorted_wrt (rarer score) (sort_key score xs)" by simp
  moreover have "x \<le> y" if "y \<in> set (sort_key score xs)" for y
    using that Cons.prems by simp
  ultimately have "sorted_wrt (rarer score) (insort_key score x (sort_key score xs))"
    by (rule rarer_insort)
  then show ?case by simp
qed

text \<open>
  C7, as amended. The order returned is the stable sort of the needed chunks, in the
  iteration order of their set, by the number of occurrences of each chunk in the chunk
  lists of the known peers that advertise the file (0 when no peer lists it): it is a
  permutation of the needed chunks, ascending by that score, and chunks of equal score keep
  the order they had. When no peer's list repeats an index the score is the number of peers
  that list the chunk. When the needed chunks are iterated in ascending order, ties come
  out in ascending index order. The batch is the first 5 chunks of the order, that is
  \<open>min 5 |needed|\<close> chunks.
\<close>

theorem rarest_first_order:
  "get_rarest_chunks_first needed file_name all_peers =
     sort_key (occurrences file_name all_peers) needed \<and>
   mset (get_rarest_chunks_first needed file_name all_peers) = mset needed \<and>
   sorted (map (occurrences file_name all_peers)
             (get_rarest_chunks_first needed file_name all_peers)) \<and>
   (\<forall>k. filter (\<lambda>i. occurrences file_name all_peers i = k)
            (get_rarest_chunks_first needed file_name all_peers) =
         filter (\<lambda>i. occurrences file_name all_peers i = k) needed) \<and>
   ((\<forall>p \<in> set all_peers. distinct (listed_chunks file_name p)) \<longrightarrow>
      (\<forall>i. occurrences file_name all_peers i = peers_listing file_name all_peers i)) \<and>
   (sorted needed \<longrightarrow>
      sorted_wrt (rarer (occurrences file_name all_peers))
        (get_rarest_chunks_first needed file_name all_peers)) \<and>
   next_batch needed file_name all_peers =
     take 5 (get_rarest_chunks_first needed file_name all_peers) \<and>
   length (next_batch needed file_name all_peers) = min 5 (length needed)"
proof -
  let ?score = "occurrences file_name all_peers"
  have eq: "get_rarest_chunks_first needed file_name all_peers = sort_key ?score needed"
    by (rule rarest_is_stable_sort)
  have stable: "filter (\<lambda>i. ?score i = k) (sort_key ?score needed) =
      filter (\<lambda>i. ?score i = k) needed" for k
    by (rule sort_key_stable)
  have sets: "(\<forall>p \<in> set all_peers. distinct (listed_chunks file_name p)) \<longrightarrow>
      (\<forall>i. ?score i = peers_listing file_name all_peers i)"
    by (simp add: occurrences_distinct)
  have asc: "sorted needed \<longrightarrow> sorted_wrt (rarer ?score) (sort_key ?score needed)"
    by (simp add: rarer_sort_key)
  have batch: "next_batch needed file_name all_peers = take 5 (sort_key ?score needed)"
    by (simp add: next_batch_def CHUNK_DOWNLOADER_THREADS_def eq)
  show ?thesis
    unfolding eq using stable sets asc batch by (simp add: min.commute)
qed

theorem rarest_first_order_witness:
  "get_rarest_chunks_first [0, 1, 2] ''x.bin''
     [\<lparr>peer_addr = ''10.0.0.1:5000'', peer_files = Some [''x.bin'' \<mapsto> [0, 1, 2]]\<rparr>,
      \<lparr>peer_addr = ''10.0.0.3:5002'', peer_files = Some [''x.bin'' \<mapsto> [0]]\<rparr>] = [1, 2, 0] \<and>
   occurrences ''x.bin''
     [\<lparr>peer_addr = ''10.0.0.1:5000'', peer_files = Some [''x.bin'' \<mapsto> [0, 1, 2]]\<rparr>,
      \<lparr>peer_addr = ''10.0.0.3:5002'', peer_files = Some [''x.bin'' \<mapsto> [0]]\<rparr>] 0 = 2 \<and>
   peers_listing ''x.bin''
     [\<lparr>peer_addr = ''10.0.0.1:5000'', peer_files = Some [''x.bin'' \<mapsto> [0, 1, 2]]\<rparr>,
      \<lparr>peer_addr = ''10.0.0.3:5002'', peer_files = Some [''x.bin'' \<mapsto> [0]]\<rparr>] 0 = 2 \<and>
   next_batch [0, 1, 2] ''x.bin''
     [\<lparr>peer_addr = ''10.0.0.1:5000'', peer_files = Some [''x.bin'' \<mapsto> [0, 1, 2]]\<rparr>,
      \<lparr>peer_addr = ''10.0.0.3:5002'', peer_files = Some [''x.bin'' \<mapsto> [0]]\<rparr>] = [1, 2, 0]"
proof -
  let ?a = "\<lparr>peer_addr = ''10.0.0.1:5000'', peer_files = Some [''x.bin'' \<mapsto> [0, 1, 2::nat]]\<rparr>"
  let ?c = "\<lparr>peer_addr = ''10.0.0.3:5002'', peer_files = Some [''x.bin'' \<mapsto> [0::nat]]\<rparr>"
  have score: "occurrences ''x.bin'' [?a, ?c] 0 = 2"
    by (simp add: occurrences_def listed_chunks_def)
  have lists: "\<forall>p \<in> set [?a, ?c]. distinct (listed_chunks ''x.bin'' p)"
    by (simp add: listed_chunks_def)
  have asc: "sorted [0, 1, 2::nat]" by simp
  from rarest_first_order [of "[0, 1, 2]" "''x.bin''" "[?a, ?c]"] lists asc
  have order: "get_rarest_chunks_first [0, 1, 2] ''x.bin'' [?a, ?c] =
                 sort_key (occurrences ''x.bin'' [?a, ?c]) [0, 1, 2]"
    and same: "occurrences ''x.bin'' [?a, ?c] 0 = peers_listing ''x.bin'' [?a, ?c] 0"
    and batch: "next_batch [0, 1, 2] ''x.bin'' [?a, ?c] =
                  take 5 (get_rarest_chunks_first [0, 1, 2] ''x.bin'' [?a, ?c])"
    by blast+
  have "sort_key (occurrences ''x.bin'' [?a, ?c]) [0, 1, 2] = [1, 2, 0]"
    by (simp add: occurrences_def listed_chunks_def)
  with order same batch score show ?thesis by simp
qed

text \<open>
  C7 as stated fails: with no peer known, chunks 8 and 1 have the same score, and the set
  \<^verbatim>\<open>{1, 8}\<close>, which CPython iterates as 8, 1, comes out in that order, not in ascending
  index order.
\<close>

theorem ties_follow_set_iteration_order:
  "get_rarest_chunks_first [8, 1] ''x.bin'' [] = [8, 1] \<and>
   occurrences ''x.bin'' [] 8 = occurrences ''x.bin'' [] 1"
  by (simp add: get_rarest_chunks_first_def occurrences_def)

end
